theory Spec2Isabelle
  imports Complex_Main
begin

section \<open>Python values\<close>

text \<open>
  The values a parsed JSON body holds (\<open>Dict[str, Any]\<close> after \<open>json.loads\<close>).
  A finite float is the rational it denotes; Python compares an int with a float
  exactly, so order and truncation are those of the rationals.
\<close>

datatype pyfloat = Finite rat | PosInf | NegInf | NaN

datatype pyval =
    PNone
  | PBool bool
  | PInt int
  | PFloat pyfloat
  | PStr string
  | PList "pyval list"
  | PDict "(string \<times> pyval) list"

type_synonym pydict = "string \<rightharpoonup> pyval"

text \<open>\<open>str(n)\<close> of an int, as an f-string renders it.\<close>

fun str_nat :: "nat \<Rightarrow> string" where
  "str_nat n = (if n < 10 then [''0123456789'' ! n]
                else str_nat (n div 10) @ [''0123456789'' ! (n mod 10)])"

definition str_int :: "int \<Rightarrow> string" where
  "str_int i = (if i < 0 then CHR ''-'' # str_nat (nat (- i)) else str_nat (nat i))"

section \<open>exceptions.py\<close>

subsection \<open>The exception classes of the module\<close>

text \<open>
  Every \<open>class\<close> statement of exceptions.py, in source order: its name, its base
  class and the parameters of its own \<open>__init__\<close> (empty when the body is \<open>pass\<close>).
\<close>

record class_decl =
  class_name :: string
  base :: string
  init_params :: "string list"

definition exceptions_module :: "class_decl list" where
  "exceptions_module =
    [\<lparr>class_name = ''CredentialError'', base = ''Exception'', init_params = []\<rparr>,
     \<lparr>class_name = ''KaggleEnvironmentError'', base = ''Exception'', init_params = []\<rparr>,
     \<lparr>class_name = ''ColabEnvironmentError'', base = ''Exception'', init_params = []\<rparr>,
     \<lparr>class_name = ''BackendError'', base = ''Exception'',
      init_params = [''message'', ''error_code'']\<rparr>,
     \<lparr>class_name = ''NotFoundError'', base = ''Exception'', init_params = []\<rparr>,
     \<lparr>class_name = ''DataCorruptionError'', base = ''Exception'', init_params = []\<rparr>,
     \<lparr>class_name = ''KaggleApiHTTP1Error'', base = ''Exception'',
      init_params = [''message'', ''response'']\<rparr>,
     \<lparr>class_name = ''ColabHTTP1Error'', base = ''Exception'',
      init_params = [''message'', ''response'']\<rparr>,
     \<lparr>class_name = ''KaggleApiHTTPError'', base = ''requests.HTTPError'',
      init_params = [''message'', ''response'']\<rparr>,
     \<lparr>class_name = ''ColabHTTPError'', base = ''requests.HTTPError'',
      init_params = [''message'', ''response'']\<rparr>,
     \<lparr>class_name = ''UnauthenticatedError'', base = ''Exception'',
      init_params = [''message'']\<rparr>]"

text \<open>The six kinds the specification lists as the error taxonomy.\<close>

definition spec_taxonomy :: "string list" where
  "spec_taxonomy =
    [''ValidationError'', ''UnsupportedEnvironmentError'', ''UnauthenticatedError'',
     ''NotFoundError'', ''BackendError'', ''DataCorruptionError'']"

subsection \<open>Responses and raised exceptions\<close>

text \<open>
  What \<open>response.raise_for_status()\<close> can raise, by the \<open>except\<close> clauses that tell
  the classes apart: the three classes named in kaggle_api_raise_for_status, any other
  subclass of \<open>aiohttp.web_exceptions.HTTPError\<close>, and any exception outside that
  class. \<open>exc_str\<close> is \<open>str(e)\<close>.
\<close>

datatype web_exc_class =
  HTTPUnauthorized | HTTPForbidden | HTTPNotFound | HTTPErrorOther | NonHTTPError

record raised =
  exc_class :: web_exc_class
  exc_str :: string

text \<open>
  The response, by the attributes the two functions read. The parameter is annotated
  \<open>aiohttp.ClientResponse\<close>, which has \<open>status\<close> and \<open>url\<close> but no attribute
  \<open>status_code\<close>: \<open>status_code = None\<close> is an object without it, on which reading
  it raises AttributeError. \<open>raise_for_status\<close> is the outcome of the method call:
  \<open>None\<close> when it returns, the exception when it raises.
\<close>

record response =
  status :: int
  status_code :: "int option"
  url :: string
  raise_for_status :: "raised option"

text \<open>
  A \<open>ResourceHandle\<close> (kagglehub.handle) is read only through \<open>to_url()\<close>; an
  instance is truthy.
\<close>

record resource_handle =
  to_url :: string

text \<open>
  Exceptions as values: the classes of exceptions.py, the exception of
  \<open>raise_for_status\<close> when it propagates unchanged, and the built-in errors the
  modelled code can run into.
\<close>

datatype exn =
    CredentialError
  | KaggleEnvironmentError
  | ColabEnvironmentError
  | BackendError (message: pyval) (error_code: "int option")
  | NotFoundError
  | DataCorruptionError
  | KaggleApiHTTP1Error string response
  | ColabHTTP1Error string response
  | KaggleApiHTTPError string
  | ColabHTTPError string
  | UnauthenticatedError string
  | Propagated raised
  | TypeError
  | ValueError
  | OverflowError
  | AttributeError
  | UnboundLocalError
  | ImportError
  | OSError string

text \<open>
  The message texts of the f-strings: the guidance to authenticate, and the
  resource-not-found text of the HTTPNotFound clause.
\<close>

definition permission_message :: "int \<Rightarrow> string \<Rightarrow> string" where
  "permission_message code resource_url =
     str_int code @ '' Client Error.'' @ ''\<newline>\<newline>''
     @ ''You don't have permission to access resource at URL: '' @ resource_url
     @ ''\<newline>Please make sure you are authenticated if you are trying to access a private resource or a resource''
     @ '' requiring consent.''"

definition not_found_message :: "int \<Rightarrow> string \<Rightarrow> string" where
  "not_found_message code resource_url =
     str_int code @ '' Client Error.'' @ ''\<newline>\<newline>''
     @ ''Resource not found at URL: '' @ resource_url
     @ ''\<newline>Please make sure you specified the correct resource identifiers.''"

definition resource_url_of :: "resource_handle option \<Rightarrow> response \<Rightarrow> string" where
  "resource_url_of resource_handle response =
     (case resource_handle of Some h \<Rightarrow> to_url h | None \<Rightarrow> url response)"

text \<open>
  kaggle_api_raise_for_status. In the HTTPUnauthorized and HTTPForbidden clauses
  \<open>resource_url\<close> is assigned, then the f-string reads \<open>response.status_code\<close>.
  The HTTPNotFound clause assigns nothing: its f-string reads
  \<open>response.status_code\<close> first and then the local \<open>resource_url\<close>, which is
  unbound, so the \<open>raise KaggleApiHTTP1Error\<close> below it is never reached. Every other
  exception propagates.
\<close>

definition kaggle_api_raise_for_status ::
  "response \<Rightarrow> resource_handle option \<Rightarrow> exn + unit" where
  "kaggle_api_raise_for_status response resource_handle =
     (case raise_for_status response of
        None \<Rightarrow> Inr ()
      | Some e \<Rightarrow>
          (case exc_class e of
             HTTPUnauthorized \<Rightarrow>
               (let resource_url = resource_url_of resource_handle response in
                case status_code response of
                  None \<Rightarrow> Inl AttributeError
                | Some c \<Rightarrow> Inl (KaggleApiHTTP1Error (permission_message c resource_url) response))
           | HTTPForbidden \<Rightarrow>
               (let resource_url = resource_url_of resource_handle response in
                case status_code response of
                  None \<Rightarrow> Inl AttributeError
                | Some c \<Rightarrow> Inl (KaggleApiHTTP1Error (permission_message c resource_url) response))
           | HTTPNotFound \<Rightarrow>
               (case status_code response of
                  None \<Rightarrow> Inl AttributeError
                | Some c \<Rightarrow> Inl UnboundLocalError)
           | HTTPErrorOther \<Rightarrow> Inl (Propagated e)
           | NonHTTPError \<Rightarrow> Inl (Propagated e)))"

text \<open>
  colab_raise_for_status: one clause for every \<open>aiohttp.web_exceptions.HTTPError\<close>;
  the message is \<open>str(e)\<close> unless the status is 401 or 403.
\<close>

definition colab_raise_for_status ::
  "response \<Rightarrow> resource_handle option \<Rightarrow> exn + unit" where
  "colab_raise_for_status response resource_handle =
     (case raise_for_status response of
        None \<Rightarrow> Inr ()
      | Some e \<Rightarrow>
          (if exc_class e = NonHTTPError then Inl (Propagated e)
           else
             (let message = exc_str e;
                  resource_url = resource_url_of resource_handle response;
                  message = (if status response \<in> {401, 403}
                             then permission_message (status response) resource_url
                             else message)
              in Inl (ColabHTTP1Error message response))))"

subsection \<open>process_post_response\<close>

text \<open>
  \<open>200 <= v\<close> and \<open>v < 300\<close> for a value \<open>v\<close> of a body: defined between numbers
  (a bool is the int 0 or 1, every comparison with NaN is false), TypeError otherwise.
\<close>

fun int_le_val :: "int \<Rightarrow> pyval \<Rightarrow> exn + bool" where
  "int_le_val n (PBool b) = Inr (n \<le> (if b then 1 else 0))"
| "int_le_val n (PInt i) = Inr (n \<le> i)"
| "int_le_val n (PFloat (Finite q)) = Inr (of_int n \<le> q)"
| "int_le_val n (PFloat PosInf) = Inr True"
| "int_le_val n (PFloat NegInf) = Inr False"
| "int_le_val n (PFloat NaN) = Inr False"
| "int_le_val n PNone = Inl TypeError"
| "int_le_val n (PStr s) = Inl TypeError"
| "int_le_val n (PList xs) = Inl TypeError"
| "int_le_val n (PDict kvs) = Inl TypeError"

fun val_lt_int :: "pyval \<Rightarrow> int \<Rightarrow> exn + bool" where
  "val_lt_int (PBool b) n = Inr ((if b then 1 else 0) < n)"
| "val_lt_int (PInt i) n = Inr (i < n)"
| "val_lt_int (PFloat (Finite q)) n = Inr (q < of_int n)"
| "val_lt_int (PFloat PosInf) n = Inr False"
| "val_lt_int (PFloat NegInf) n = Inr True"
| "val_lt_int (PFloat NaN) n = Inr False"
| "val_lt_int PNone n = Inl TypeError"
| "val_lt_int (PStr s) n = Inl TypeError"
| "val_lt_int (PList xs) n = Inl TypeError"
| "val_lt_int (PDict kvs) n = Inl TypeError"

text \<open>
  \<open>int(v)\<close>. On a number it is exact: a bool is 0 or 1, a float is truncated
  towards zero, NaN and the infinities are refused. On text it is the interpreter's:
  which texts it converts (the whitespace and the digits it accepts, the limit on the
  number of digits) depends on its version and configuration, so the conversion of text
  is a parameter, \<open>None\<close> where \<open>int()\<close> raises ValueError.
\<close>

type_synonym text_to_int = "string \<rightharpoonup> int"

definition trunc :: "rat \<Rightarrow> int" where
  "trunc q = (if q < 0 then - \<lfloor>- q\<rfloor> else \<lfloor>q\<rfloor>)"

fun py_int :: "text_to_int \<Rightarrow> pyval \<Rightarrow> exn + int" where
  "py_int int_of_str (PBool b) = Inr (if b then 1 else 0)"
| "py_int int_of_str (PInt i) = Inr i"
| "py_int int_of_str (PFloat (Finite q)) = Inr (trunc q)"
| "py_int int_of_str (PFloat PosInf) = Inl OverflowError"
| "py_int int_of_str (PFloat NegInf) = Inl OverflowError"
| "py_int int_of_str (PFloat NaN) = Inl ValueError"
| "py_int int_of_str (PStr s) = (case int_of_str s of None \<Rightarrow> Inl ValueError | Some n \<Rightarrow> Inr n)"
| "py_int int_of_str PNone = Inl TypeError"
| "py_int int_of_str (PList xs) = Inl TypeError"
| "py_int int_of_str (PDict kvs) = Inl TypeError"

text \<open>
  \<open>200 <= response.get("code", 200) < 300\<close>: the chained comparison evaluates
  \<open>v < 300\<close> only when \<open>200 <= v\<close> holds.
\<close>

definition code_in_range :: "pydict \<Rightarrow> exn + bool" where
  "code_in_range response =
     (let code = (case response ''code'' of None \<Rightarrow> PInt 200 | Some v \<Rightarrow> v) in
      case int_le_val 200 code of
        Inl e \<Rightarrow> Inl e
      | Inr lo \<Rightarrow> if lo then val_lt_int code 300 else Inr False)"

definition process_post_response :: "text_to_int \<Rightarrow> pydict \<Rightarrow> exn + unit" where
  "process_post_response int_of_str response =
     (case code_in_range response of
        Inl e \<Rightarrow> Inl e
      | Inr ok \<Rightarrow>
          if \<not> ok then
            (let error_message =
                   (case response ''message'' of
                      None \<Rightarrow> PStr ''No error message provided''
                    | Some m \<Rightarrow> m)
             in Inl (BackendError error_message None))
          else
            (case response ''error'' of
               None \<Rightarrow> Inr ()
             | Some err \<Rightarrow>
                 if err \<noteq> PStr '''' then
                   (case response ''errorCode'' of
                      None \<Rightarrow> Inl (BackendError err None)
                    | Some v \<Rightarrow>
                        (case py_int int_of_str v of
                           Inl e \<Rightarrow> Inl e
                         | Inr n \<Rightarrow> Inl (BackendError err (Some n))))
                 else Inr ()))"

section \<open>dj.py\<close>

subsection \<open>Paths\<close>

text \<open>\<open>os.path.join(a, b)\<close> and \<open>os.path.dirname(p)\<close> of posixpath.\<close>

definition os_path_join :: "string \<Rightarrow> string \<Rightarrow> string" where
  "os_path_join a b =
     (if take 1 b = ''/'' then b
      else if a = [] \<or> last a = CHR ''/'' then a @ b
      else a @ ''/'' @ b)"

definition os_path_dirname :: "string \<Rightarrow> string" where
  "os_path_dirname p =
     (let head = rev (dropWhile (\<lambda>c. c \<noteq> CHR ''/'') (rev p)) in
      if head \<noteq> [] \<and> filter (\<lambda>c. c \<noteq> CHR ''/'') head \<noteq> []
      then rev (dropWhile (\<lambda>c. c = CHR ''/'') (rev head))
      else head)"

text \<open>
  A \<open>pathlib.Path\<close> on POSIX: the root (\<open>''\<close>, \<open>/\<close> or \<open>//\<close>) and the parts after
  it, empty parts and \<open>.\<close> dropped. \<open>str_path\<close> is \<open>str(p)\<close>, which
  \<open>os.path.join\<close> reads through \<open>os.fspath\<close>.
\<close>

record pure_path =
  root :: string
  tail :: "string list"

fun split_sep :: "string \<Rightarrow> string list" where
  "split_sep [] = [[]]"
| "split_sep (c # cs) =
     (if c = CHR ''/'' then [] # split_sep cs
      else (case split_sep cs of [] \<Rightarrow> [[c]] | w # ws \<Rightarrow> (c # w) # ws))"

fun join_sep :: "string list \<Rightarrow> string" where
  "join_sep [] = []"
| "join_sep [x] = x"
| "join_sep (x # y # ys) = x @ ''/'' @ join_sep (y # ys)"

definition Path :: "string \<Rightarrow> pure_path" where
  "Path s =
     (let stripped = dropWhile (\<lambda>c. c = CHR ''/'') s;
          slashes = length s - length stripped
      in \<lparr>root = (if slashes = 0 then [] else if slashes = 2 then ''//'' else ''/''),
          tail = filter (\<lambda>x. x \<noteq> [] \<and> x \<noteq> ''.'') (split_sep stripped)\<rparr>)"

definition parent :: "pure_path \<Rightarrow> pure_path" where
  "parent p = (if tail p = [] then p else p\<lparr>tail := butlast (tail p)\<rparr>)"

definition str_path :: "pure_path \<Rightarrow> string" where
  "str_path p =
     (let s = root p @ join_sep (tail p) in if s = [] then ''.'' else s)"

subsection \<open>The context variable and the file system\<close>

text \<open>
  The value of \<open>scoped_pipeline_dir_ctx\<close>: \<open>None\<close> (the default), a string or a
  \<open>pathlib.Path\<close>, the values the module stores in it. The state is that value and
  the file system, which the module touches only with \<open>os.makedirs\<close>.
\<close>

datatype ctx_value = CtxNone | CtxStr string | CtxPath pure_path

record 'fs state =
  scoped_pipeline_dir_ctx :: ctx_value
  filesystem :: 'fs

text \<open>
  \<open>os.makedirs(d, exist_ok=True)\<close> is the operating system's: a parameter that, for
  a directory and a file system, gives the error it raises, if any, and the file
  system afterwards.
\<close>

type_synonym 'fs makedirs = "string \<Rightarrow> 'fs \<Rightarrow> exn option \<times> 'fs"

subsection \<open>pipeline_scoped\<close>

text \<open>
  The decorated function: what \<open>inspect.getmodule(func)\<close> gives (\<open>None\<close>, or the
  module's \<open>__file__\<close>: absent, \<open>None\<close> or a string) and its body, which reads and
  writes the state and returns a value or raises.
\<close>

datatype module_file = FileMissing | FileNone | FileStr string

record ('a, 'v, 'fs) pyfunc =
  getmodule :: "module_file option"
  body :: "'a \<Rightarrow> 'fs state \<Rightarrow> (exn + 'v) \<times> 'fs state"

text \<open>
  The directory \<open>inner\<close> computes before the \<open>try\<close>. \<open>hasattr(None, '__file__')\<close>
  is false; \<open>os.path.dirname(None)\<close> raises TypeError.
\<close>

definition pipeline_dir_of :: "module_file option \<Rightarrow> exn + ctx_value" where
  "pipeline_dir_of m =
     (case m of
        None \<Rightarrow> Inr (CtxStr ''/kaggle/working'')
      | Some FileMissing \<Rightarrow> Inr (CtxStr ''/kaggle/working'')
      | Some FileNone \<Rightarrow> Inl TypeError
      | Some (FileStr f) \<Rightarrow> Inr (CtxPath (parent (Path (os_path_dirname f)))))"

text \<open>
  \<open>pipeline_scoped(func)(*args, **kwargs)\<close>: the wrapper \<open>inner\<close>. The \<open>finally\<close>
  clause runs whether \<open>func\<close> returns or raises.
\<close>

definition pipeline_scoped ::
  "('a, 'v, 'fs) pyfunc \<Rightarrow> 'a \<Rightarrow> 'fs state \<Rightarrow> (exn + 'v) \<times> 'fs state" where
  "pipeline_scoped func args s =
     (case pipeline_dir_of (getmodule func) of
        Inl e \<Rightarrow> (Inl e, s)
      | Inr pipeline_dir \<Rightarrow>
          (let original_ctx = scoped_pipeline_dir_ctx s;
               (return_value, s') = body func args (s\<lparr>scoped_pipeline_dir_ctx := pipeline_dir\<rparr>)
           in (return_value, s'\<lparr>scoped_pipeline_dir_ctx := original_ctx\<rparr>)))"

subsection \<open>get_asset_path\<close>

text \<open>
  \<open>scoped_pipeline_dir_ctx.get() or '/kaggle/working'\<close>: \<open>None\<close> and the empty
  string are falsy, a \<open>Path\<close> is always truthy.
\<close>

definition current_pipeline_dir :: "ctx_value \<Rightarrow> string" where
  "current_pipeline_dir c =
     (case c of
        CtxNone \<Rightarrow> ''/kaggle/working''
      | CtxStr d \<Rightarrow> if d = [] then ''/kaggle/working'' else d
      | CtxPath p \<Rightarrow> str_path p)"

definition get_asset_path ::
  "'fs makedirs \<Rightarrow> string \<Rightarrow> 'fs state \<Rightarrow> (exn + string) \<times> 'fs state" where
  "get_asset_path makedirs path s =
     (let pipeline_dir = current_pipeline_dir (scoped_pipeline_dir_ctx s);
          assets_dir = os_path_join pipeline_dir ''assets''
      in case makedirs assets_dir (filesystem s) of
           (Some e, fs') \<Rightarrow> (Inl e, s\<lparr>filesystem := fs'\<rparr>)
         | (None, fs') \<Rightarrow> (Inr (os_path_join assets_dir path), s\<lparr>filesystem := fs'\<rparr>))"

text \<open>
  The join of several segments, as \<open>os.path.join(a, *p)\<close> folds them: the words of
  the claim about get_asset_path, to compare with the two nested calls of the source.
\<close>

definition join_segments :: "string \<Rightarrow> string list \<Rightarrow> string" where
  "join_segments a ps = foldl os_path_join a ps"

section \<open>__init__.py\<close>

text \<open>The resolver classes instantiated at import time.\<close>

datatype resolver =
    ModelHttpResolver
  | ModelKaggleCacheResolver
  | ModelColabCacheResolver
  | DatasetHttpResolver
  | DatasetKaggleCacheResolver
  | DatasetColabCacheResolver
  | CompetitionHttpResolver
  | CompetitionKaggleCacheResolver

definition is_http_resolver :: "resolver \<Rightarrow> bool" where
  "is_http_resolver r =
     (r = ModelHttpResolver \<or> r = DatasetHttpResolver \<or> r = CompetitionHttpResolver)"

text \<open>The three registries of kagglehub.registry, each a chain of implementations.\<close>

record registry =
  model_resolver :: "resolver list"
  dataset_resolver :: "resolver list"
  competition_resolver :: "resolver list"

text \<open>
  Modelled from the spec: the registry module (kagglehub/registry.py) is not among the
  sources. The chains are populated once during process start-up, so each is empty
  before it.
\<close>

definition empty_registry :: registry where
  "empty_registry = \<lparr>model_resolver = [], dataset_resolver = [], competition_resolver = []\<rparr>"

text \<open>
  Modelled from the spec: \<open>add_implementation\<close> of the registry
  (kagglehub/registry.py, not among the sources) appends the resolver to the chain.
\<close>

definition add_implementation :: "'r \<Rightarrow> 'r list \<Rightarrow> 'r list" where
  "add_implementation impl chain = chain @ [impl]"

text \<open>
  The eight registrations of __init__.py (lines 13 to 22), in source order, on the
  registries as they stand.
\<close>

definition register_resolvers :: "registry \<Rightarrow> registry" where
  "register_resolvers r0 =
     (let r = r0;
          r = r\<lparr>model_resolver := add_implementation ModelHttpResolver (model_resolver r)\<rparr>;
          r = r\<lparr>model_resolver := add_implementation ModelKaggleCacheResolver (model_resolver r)\<rparr>;
          r = r\<lparr>model_resolver := add_implementation ModelColabCacheResolver (model_resolver r)\<rparr>;
          r = r\<lparr>dataset_resolver := add_implementation DatasetHttpResolver (dataset_resolver r)\<rparr>;
          r = r\<lparr>dataset_resolver := add_implementation DatasetKaggleCacheResolver (dataset_resolver r)\<rparr>;
          r = r\<lparr>dataset_resolver := add_implementation DatasetColabCacheResolver (dataset_resolver r)\<rparr>;
          r = r\<lparr>competition_resolver := add_implementation CompetitionHttpResolver (competition_resolver r)\<rparr>;
          r = r\<lparr>competition_resolver :=
                 add_implementation CompetitionKaggleCacheResolver (competition_resolver r)\<rparr>
      in r)"

text \<open>
  The names a module binds at its top level, for the two modules among the sources
  that __init__.py imports names from: auth.py (\<open>import json\<close>, the import of
  \<open>set_kaggle_credentials\<close>, \<open>def login\<close>) and dj.py.
\<close>

definition auth_module :: "string list" where
  "auth_module = [''json'', ''set_kaggle_credentials'', ''login'']"

definition dj_module :: "string list" where
  "dj_module =
     [''contextvars'', ''importlib'', ''inspect'', ''os'', ''pathlib'', ''sys'', ''Callable'',
      ''urllib'', ''KaggleApiV1Client'', ''scoped_pipeline_dir_ctx'', ''pipeline_scoped'',
      ''get_asset_path'', ''download_notebook_output_files'', ''import_pipeline_module'']"

text \<open>
  \<open>from m import a, b\<close> for a module \<open>m\<close> that is a file: ImportError when a name is
  not bound in it.
\<close>

definition import_from :: "string list \<Rightarrow> string list \<Rightarrow> exn option" where
  "import_from bound names =
     (if list_all (\<lambda>n. n \<in> set bound) names then None else Some ImportError)"

text \<open>
  The module body of __init__.py: the exception it ends with, if any, and the
  registries afterwards. The imports of lines 3, 4, 6 to 8 and 10 are from modules that
  are not among the sources and are taken to succeed; line 4 imports the registry
  module, which creates the chains. Line 5 imports \<open>login\<close> and \<open>whoami\<close> from
  auth.py, line 11 four names from dj.py; the registrations follow.
\<close>

definition kagglehub_init :: "exn option \<times> registry" where
  "kagglehub_init =
     (let r = empty_registry in
      case import_from auth_module [''login'', ''whoami''] of
        Some e \<Rightarrow> (Some e, r)
      | None \<Rightarrow>
          (case import_from dj_module
                  [''pipeline_scoped'', ''get_asset_path'', ''download_notebook_output_files'',
                   ''import_pipeline_module''] of
             Some e \<Rightarrow> (Some e, r)
           | None \<Rightarrow> (None, register_resolvers r)))"

text \<open>
  The words of the claim about a chain: the HTTP resolver is the last implementation
  registered in it.
\<close>

definition http_registered_last :: "resolver list \<Rightarrow> bool" where
  "http_registered_last chain = (chain \<noteq> [] \<and> is_http_resolver (last chain))"

section \<open>The resolver registry\<close>

text \<open>
  A resolver is its two capabilities, \<open>is_supported\<close> and \<open>resolve\<close>, given as
  functions of the resolver and the handle. The log of a resolution lists the calls
  made on resolvers, each with the position of the resolver in the chain. The result
  is a path, the error the resolver raised, or UnsupportedEnvironmentError.
\<close>

datatype call = IsSupported nat | Resolve nat

datatype 'e registry_error = Raised 'e | UnsupportedEnvironmentError

text \<open>
  Modelled from the spec: \<open>resolve\<close> of the registry (kagglehub/registry.py) is not
  among the sources. The chain is iterated in registration order; each resolver is
  asked \<open>is_supported\<close>; the unsupported ones are skipped; \<open>resolve\<close> is called on the
  first supported one and its result, a path or an error, is the result. With no
  supported resolver the call fails with UnsupportedEnvironmentError.
  \<open>resolve_from i\<close> is the iteration from position \<open>i\<close> on.
\<close>

fun resolve_from ::
  "('r \<Rightarrow> 'h \<Rightarrow> bool) \<Rightarrow> ('r \<Rightarrow> 'h \<Rightarrow> 'e + 'p) \<Rightarrow> nat \<Rightarrow> 'r list \<Rightarrow> 'h
     \<Rightarrow> call list \<times> ('e registry_error + 'p)" where
  "resolve_from is_supported resolve i [] h = ([], Inl UnsupportedEnvironmentError)"
| "resolve_from is_supported resolve i (r # rs) h =
     (if is_supported r h
      then ([IsSupported i, Resolve i],
            (case resolve r h of Inl e \<Rightarrow> Inl (Raised e) | Inr p \<Rightarrow> Inr p))
      else (let (log, res) = resolve_from is_supported resolve (Suc i) rs h
            in (IsSupported i # log, res)))"

text \<open>
  Modelled from the spec: the registry's \<open>resolve(handle)\<close>, the iteration from the
  head of the chain.
\<close>

definition registry_resolve ::
  "('r \<Rightarrow> 'h \<Rightarrow> bool) \<Rightarrow> ('r \<Rightarrow> 'h \<Rightarrow> 'e + 'p) \<Rightarrow> 'r list \<Rightarrow> 'h
     \<Rightarrow> call list \<times> ('e registry_error + 'p)" where
  "registry_resolve is_supported resolve chain h = resolve_from is_supported resolve 0 chain h"

section \<open>Properties\<close>

declare str_nat.simps [simp del]

subsection \<open>Start-up registration\<close>

text \<open>
  C1 (as stated, refuted): the claim says that in every chain built at start-up the
  HTTP resolver is the last implementation registered. In the chains as the module body
  of __init__.py leaves them no HTTP resolver is registered last; and in the chains the
  registration statements build from empty ones the last implementation registered is
  a cache resolver.
\<close>

theorem http_resolver_not_registered_last:
  "\<not> http_registered_last (model_resolver (snd kagglehub_init))
   \<and> \<not> http_registered_last (dataset_resolver (snd kagglehub_init))
   \<and> \<not> http_registered_last (competition_resolver (snd kagglehub_init))
   \<and> \<not> http_registered_last (model_resolver (register_resolvers empty_registry))
   \<and> \<not> http_registered_last (dataset_resolver (register_resolvers empty_registry))
   \<and> \<not> http_registered_last (competition_resolver (register_resolvers empty_registry))"
  by (simp add: kagglehub_init_def import_from_def auth_module_def register_resolvers_def
      empty_registry_def add_implementation_def http_registered_last_def
      is_http_resolver_def Let_def)

text \<open>
  C1 (amended): the registration statements of __init__.py, run on the registries in
  any state, append to each chain the HTTP resolver first and the environment cache
  resolvers after it, the Kaggle cache resolver before the Colab one (the competition
  chain gets no Colab resolver); on empty chains the HTTP resolver is so the first
  implementation registered in every chain.
\<close>

theorem http_resolver_registered_first:
  "model_resolver (register_resolvers r) =
     model_resolver r @ [ModelHttpResolver, ModelKaggleCacheResolver, ModelColabCacheResolver]
   \<and> dataset_resolver (register_resolvers r) =
       dataset_resolver r
         @ [DatasetHttpResolver, DatasetKaggleCacheResolver, DatasetColabCacheResolver]
   \<and> competition_resolver (register_resolvers r) =
       competition_resolver r @ [CompetitionHttpResolver, CompetitionKaggleCacheResolver]
   \<and> register_resolvers empty_registry =
       \<lparr>model_resolver =
          [ModelHttpResolver, ModelKaggleCacheResolver, ModelColabCacheResolver],
        dataset_resolver =
          [DatasetHttpResolver, DatasetKaggleCacheResolver, DatasetColabCacheResolver],
        competition_resolver = [CompetitionHttpResolver, CompetitionKaggleCacheResolver]\<rparr>"
  by (simp add: register_resolvers_def empty_registry_def add_implementation_def Let_def)

subsection \<open>The classes of exceptions.py\<close>

text \<open>
  C5 (as stated, refuted): the claim says the module contains exactly the six kinds
  of the specification. ValidationError is one of the six and is not a class of the
  module; CredentialError is a class of the module and is not one of the six.
\<close>

theorem taxonomy_differs_from_module:
  "''ValidationError'' \<in> set spec_taxonomy
   \<and> ''ValidationError'' \<notin> set (map class_name exceptions_module)
   \<and> ''CredentialError'' \<in> set (map class_name exceptions_module)
   \<and> ''CredentialError'' \<notin> set spec_taxonomy"
  by (simp add: spec_taxonomy_def exceptions_module_def)

text \<open>
  C5 (amended): the module defines eleven exception classes. Of the six kinds of the
  specification it defines four (UnauthenticatedError, NotFoundError, BackendError
  with the parameters message and error_code, DataCorruptionError) and does not define
  ValidationError and UnsupportedEnvironmentError.
\<close>

theorem exceptions_module_classes:
  "map class_name exceptions_module =
     [''CredentialError'', ''KaggleEnvironmentError'', ''ColabEnvironmentError'',
      ''BackendError'', ''NotFoundError'', ''DataCorruptionError'',
      ''KaggleApiHTTP1Error'', ''ColabHTTP1Error'', ''KaggleApiHTTPError'',
      ''ColabHTTPError'', ''UnauthenticatedError'']
   \<and> filter (\<lambda>k. k \<in> set (map class_name exceptions_module)) spec_taxonomy =
       [''UnauthenticatedError'', ''NotFoundError'', ''BackendError'', ''DataCorruptionError'']
   \<and> filter (\<lambda>k. k \<notin> set (map class_name exceptions_module)) spec_taxonomy =
       [''ValidationError'', ''UnsupportedEnvironmentError'']
   \<and> map init_params (filter (\<lambda>c. class_name c = ''BackendError'') exceptions_module) =
       [[''message'', ''error_code'']]"
  by (simp add: spec_taxonomy_def exceptions_module_def)

subsection \<open>kaggle_api_raise_for_status on a not-found response\<close>

text \<open>
  C9 (the code at the failing input): on a 404 response whose \<open>raise_for_status\<close>
  raises HTTPNotFound, kaggle_api_raise_for_status does not raise KaggleApiHTTP1Error
  with the resource-not-found message: it fails with UnboundLocalError, the local
  \<open>resource_url\<close> being read before any assignment.
\<close>

theorem not_found_raises_unbound_local:
  "kaggle_api_raise_for_status
     \<lparr>status = 404, status_code = Some 404,
      url = ''https://www.kaggle.com/api/v1/models/owner/missing'',
      raise_for_status = Some \<lparr>exc_class = HTTPNotFound, exc_str = ''Not Found''\<rparr>\<rparr>
     None
   = Inl UnboundLocalError
   \<and> kaggle_api_raise_for_status
     \<lparr>status = 404, status_code = Some 404,
      url = ''https://www.kaggle.com/api/v1/models/owner/missing'',
      raise_for_status = Some \<lparr>exc_class = HTTPNotFound, exc_str = ''Not Found''\<rparr>\<rparr>
     None
   \<noteq> Inl (KaggleApiHTTP1Error
            (not_found_message 404 ''https://www.kaggle.com/api/v1/models/owner/missing'')
            \<lparr>status = 404, status_code = Some 404,
             url = ''https://www.kaggle.com/api/v1/models/owner/missing'',
             raise_for_status = Some \<lparr>exc_class = HTTPNotFound, exc_str = ''Not Found''\<rparr>\<rparr>)"
  by (simp add: kaggle_api_raise_for_status_def)

subsection \<open>The errors of the two raise_for_status wrappers\<close>

text \<open>
  C2 (as stated, refuted): the claim says that a 401 response makes the wrappers raise
  UnauthenticatedError and a 404 response NotFoundError. On a 401 response whose
  \<open>raise_for_status\<close> raises HTTPUnauthorized, kaggle_api_raise_for_status raises
  KaggleApiHTTP1Error; on a 404 response whose \<open>raise_for_status\<close> raises
  HTTPNotFound, colab_raise_for_status raises ColabHTTP1Error.
\<close>

theorem unauthorized_raises_http1_error:
  "kaggle_api_raise_for_status
     \<lparr>status = 401, status_code = Some 401,
      url = ''https://www.kaggle.com/api/v1/models/owner/private'',
      raise_for_status = Some \<lparr>exc_class = HTTPUnauthorized, exc_str = ''Unauthorized''\<rparr>\<rparr>
     None
   = Inl (KaggleApiHTTP1Error
            (permission_message 401 ''https://www.kaggle.com/api/v1/models/owner/private'')
            \<lparr>status = 401, status_code = Some 401,
             url = ''https://www.kaggle.com/api/v1/models/owner/private'',
             raise_for_status = Some \<lparr>exc_class = HTTPUnauthorized, exc_str = ''Unauthorized''\<rparr>\<rparr>)
   \<and> colab_raise_for_status
     \<lparr>status = 404, status_code = None,
      url = ''https://colab.example/models/owner/missing'',
      raise_for_status = Some \<lparr>exc_class = HTTPNotFound, exc_str = ''Not Found''\<rparr>\<rparr>
     None
   = Inl (ColabHTTP1Error ''Not Found''
            \<lparr>status = 404, status_code = None,
             url = ''https://colab.example/models/owner/missing'',
             raise_for_status = Some \<lparr>exc_class = HTTPNotFound, exc_str = ''Not Found''\<rparr>\<rparr>)"
  by (simp add: kaggle_api_raise_for_status_def colab_raise_for_status_def resource_url_of_def)

text \<open>
  C2 (amended): when \<open>raise_for_status\<close> raises HTTPUnauthorized or HTTPForbidden (the
  exceptions of status 401 and 403) on a response that has a \<open>status_code\<close>,
  kaggle_api_raise_for_status raises KaggleApiHTTP1Error with the guidance to
  authenticate. When \<open>raise_for_status\<close> raises any HTTPError, colab_raise_for_status
  raises ColabHTTP1Error: with that guidance when the status is 401 or 403, with the
  text of the original exception otherwise (a 404 included). Neither function raises
  UnauthenticatedError or NotFoundError on any response.
\<close>

theorem http_failures_raise_http1_errors:
  assumes "raise_for_status r = Some e"
  shows "(exc_class e \<in> {HTTPUnauthorized, HTTPForbidden} \<longrightarrow> status_code r = Some c \<longrightarrow>
            kaggle_api_raise_for_status r h =
              Inl (KaggleApiHTTP1Error (permission_message c (resource_url_of h r)) r))
       \<and> (exc_class e \<noteq> NonHTTPError \<longrightarrow> status r \<in> {401, 403} \<longrightarrow>
            colab_raise_for_status r h =
              Inl (ColabHTTP1Error (permission_message (status r) (resource_url_of h r)) r))
       \<and> (exc_class e \<noteq> NonHTTPError \<longrightarrow> status r \<notin> {401, 403} \<longrightarrow>
            colab_raise_for_status r h = Inl (ColabHTTP1Error (exc_str e) r))
       \<and> (\<forall>m. kaggle_api_raise_for_status r h \<noteq> Inl (UnauthenticatedError m))
       \<and> kaggle_api_raise_for_status r h \<noteq> Inl NotFoundError
       \<and> (\<forall>m. colab_raise_for_status r h \<noteq> Inl (UnauthenticatedError m))
       \<and> colab_raise_for_status r h \<noteq> Inl NotFoundError"
proof -
  have k: "\<And>x. kaggle_api_raise_for_status r h = Inl x \<Longrightarrow>
             x \<noteq> NotFoundError \<and> (\<forall>m. x \<noteq> UnauthenticatedError m)"
    by (auto simp: kaggle_api_raise_for_status_def Let_def
        split: option.splits web_exc_class.splits)
  have c: "\<And>x. colab_raise_for_status r h = Inl x \<Longrightarrow>
             x \<noteq> NotFoundError \<and> (\<forall>m. x \<noteq> UnauthenticatedError m)"
    by (auto simp: colab_raise_for_status_def Let_def split: option.splits if_splits)
  have k1: "exc_class e \<in> {HTTPUnauthorized, HTTPForbidden} \<longrightarrow> status_code r = Some c \<longrightarrow>
            kaggle_api_raise_for_status r h =
              Inl (KaggleApiHTTP1Error (permission_message c (resource_url_of h r)) r)"
    using assms by (auto simp: kaggle_api_raise_for_status_def Let_def)
  have c1: "exc_class e \<noteq> NonHTTPError \<longrightarrow> status r \<in> {401, 403} \<longrightarrow>
            colab_raise_for_status r h =
              Inl (ColabHTTP1Error (permission_message (status r) (resource_url_of h r)) r)"
    using assms by (auto simp: colab_raise_for_status_def Let_def)
  have c2: "exc_class e \<noteq> NonHTTPError \<longrightarrow> status r \<notin> {401, 403} \<longrightarrow>
            colab_raise_for_status r h = Inl (ColabHTTP1Error (exc_str e) r)"
    using assms by (auto simp: colab_raise_for_status_def Let_def)
  from k c k1 c1 c2 show ?thesis by blast
qed

text \<open>
  Witness for C2: a 403 response with a resource handle, on which \<open>raise_for_status\<close>
  raises HTTPForbidden; both wrappers raise their HTTP1 error with the guidance, the
  URL being that of the handle.
\<close>

theorem http_failures_witness:
  "(let r = \<lparr>status = 403, status_code = Some 403,
             url = ''https://www.kaggle.com/api/v1/models/owner/private/download'',
             raise_for_status = Some \<lparr>exc_class = HTTPForbidden, exc_str = ''Forbidden''\<rparr>\<rparr>;
        h = Some \<lparr>to_url = ''https://www.kaggle.com/models/owner/private''\<rparr>
    in raise_for_status r = Some \<lparr>exc_class = HTTPForbidden, exc_str = ''Forbidden''\<rparr>
       \<and> kaggle_api_raise_for_status r h =
           Inl (KaggleApiHTTP1Error
                  (permission_message 403 ''https://www.kaggle.com/models/owner/private'') r)
       \<and> colab_raise_for_status r h =
           Inl (ColabHTTP1Error
                  (permission_message 403 ''https://www.kaggle.com/models/owner/private'') r))"
  using http_failures_raise_http1_errors
    [of "\<lparr>status = 403, status_code = Some 403,
          url = ''https://www.kaggle.com/api/v1/models/owner/private/download'',
          raise_for_status = Some \<lparr>exc_class = HTTPForbidden, exc_str = ''Forbidden''\<rparr>\<rparr>"
        "\<lparr>exc_class = HTTPForbidden, exc_str = ''Forbidden''\<rparr>" 403
        "Some \<lparr>to_url = ''https://www.kaggle.com/models/owner/private''\<rparr>"]
  by (simp add: resource_url_of_def)

subsection \<open>process_post_response\<close>

lemma int_le_val_error: "int_le_val n v = Inl e \<Longrightarrow> e = TypeError"
  by (induction n v rule: int_le_val.induct) simp_all

lemma val_lt_int_error: "val_lt_int v n = Inl e \<Longrightarrow> e = TypeError"
  by (induction v n rule: val_lt_int.induct) simp_all

lemma code_in_range_error: "code_in_range response = Inl e \<Longrightarrow> e = TypeError"
  by (auto simp: code_in_range_def Let_def split: sum.splits if_splits
      dest: int_le_val_error val_lt_int_error)

lemma code_in_range_bool:
  "code_in_range response = Inr True \<or> code_in_range response = Inr False
    \<or> code_in_range response = Inl TypeError"
proof (cases "code_in_range response")
  case (Inl e)
  then show ?thesis using code_in_range_error by blast
next
  case (Inr b)
  then show ?thesis by (cases b) simp_all
qed

lemma py_int_error:
  "py_int int_of_str w = Inl e \<Longrightarrow> e = TypeError \<or> e = ValueError \<or> e = OverflowError"
  by (induction int_of_str w rule: py_int.induct) (auto split: option.splits)

text \<open>
  C3 (as stated, refuted): the claim says a body raises BackendError only when its
  \<open>code\<close> is out of range or its \<open>error\<close> is a non-empty string, and returns normally
  otherwise. The body \<open>{"error": null}\<close> has no \<open>code\<close> and an \<open>error\<close> that is not
  a string, and BackendError is raised: \<open>None != ""\<close> is true. No text is converted,
  so the table of the conversions of text is left empty.
\<close>

theorem null_error_raises_backend_error:
  "process_post_response Map.empty [''error'' \<mapsto> PNone] = Inl (BackendError PNone None)"
  by (simp add: process_post_response_def code_in_range_def)

text \<open>
  C3 (amended): for every body and every behaviour of \<open>int()\<close> on text,
  process_post_response raises BackendError if and only if either the comparison
  \<open>200 <= code < 300\<close> is false (the \<open>code\<close> is present, a number and outside
  [200, 300)), or it is true (the \<open>code\<close> is absent, or a number in the range) and the
  body has an \<open>error\<close> field whose value is anything but the empty string and whose
  \<open>errorCode\<close>, when present, is a value \<open>int()\<close> converts. It returns normally if and
  only if the comparison is true and the \<open>error\<close> field is absent or the empty string.
  With no \<open>code\<close> the comparison is true; with an integer \<open>code\<close> it is the test
  200 \<le> code < 300.
\<close>

theorem process_post_response_raises_iff:
  "((\<exists>m k. process_post_response int_of_str response = Inl (BackendError m k)) =
      (code_in_range response = Inr False
       \<or> (code_in_range response = Inr True
          \<and> (\<exists>v. response ''error'' = Some v \<and> v \<noteq> PStr ''''
                 \<and> (response ''errorCode'' = None
                      \<or> (\<exists>w n. response ''errorCode'' = Some w
                                  \<and> py_int int_of_str w = Inr n))))))
   \<and> ((process_post_response int_of_str response = Inr ()) =
      (code_in_range response = Inr True
       \<and> (response ''error'' = None \<or> response ''error'' = Some (PStr ''''))))
   \<and> (response ''code'' = None \<longrightarrow> code_in_range response = Inr True)
   \<and> (\<forall>c. response ''code'' = Some (PInt c) \<longrightarrow>
          code_in_range response = Inr (200 \<le> c \<and> c < 300))"
proof -
  have absent: "response ''code'' = None \<longrightarrow> code_in_range response = Inr True"
    by (simp add: code_in_range_def)
  have int_code: "\<forall>c. response ''code'' = Some (PInt c) \<longrightarrow>
          code_in_range response = Inr (200 \<le> c \<and> c < 300)"
    by (simp add: code_in_range_def)
  have raises: "(\<exists>m k. process_post_response int_of_str response = Inl (BackendError m k)) =
      (code_in_range response = Inr False
       \<or> (code_in_range response = Inr True
          \<and> (\<exists>v. response ''error'' = Some v \<and> v \<noteq> PStr ''''
                 \<and> (response ''errorCode'' = None
                      \<or> (\<exists>w n. response ''errorCode'' = Some w
                                  \<and> py_int int_of_str w = Inr n)))))"
    using code_in_range_bool[of response]
  proof (elim disjE)
    assume r: "code_in_range response = Inr True"
    show ?thesis
    proof (cases "response ''error''")
      case None
      then show ?thesis using r by (simp add: process_post_response_def)
    next
      case (Some v)
      show ?thesis
      proof (cases "response ''errorCode''")
        case None
        then show ?thesis using r Some by (simp add: process_post_response_def)
      next
        case ec: (Some w)
        show ?thesis
        proof (cases "py_int int_of_str w")
          case (Inl e)
          then show ?thesis using r Some ec py_int_error[OF Inl]
            by (auto simp: process_post_response_def)
        next
          case (Inr n)
          then show ?thesis using r Some ec by (simp add: process_post_response_def)
        qed
      qed
    qed
  next
    assume r: "code_in_range response = Inr False"
    then show ?thesis by (simp add: process_post_response_def Let_def)
  next
    assume r: "code_in_range response = Inl TypeError"
    then show ?thesis by (simp add: process_post_response_def)
  qed
  have returns: "(process_post_response int_of_str response = Inr ()) =
      (code_in_range response = Inr True
       \<and> (response ''error'' = None \<or> response ''error'' = Some (PStr '''')))"
    using code_in_range_bool[of response]
    by (auto simp: process_post_response_def Let_def split: option.splits sum.splits)
  from raises returns absent int_code show ?thesis by blast
qed

text \<open>
  Witness for C3, with an \<open>int()\<close> that converts the text \<open>7\<close>: a body in range with an
  error text and a text \<open>errorCode\<close> raises, a body with code 500 raises, a body with
  an empty error and an \<open>errorCode\<close> that \<open>int()\<close> rejects returns.
\<close>

theorem process_post_response_witness:
  "(\<exists>m k. process_post_response [''7'' \<mapsto> 7]
             [''code'' \<mapsto> PInt 200, ''error'' \<mapsto> PStr ''quota exceeded'',
              ''errorCode'' \<mapsto> PStr ''7''] = Inl (BackendError m k))
   \<and> (\<exists>m k. process_post_response [''7'' \<mapsto> 7] [''code'' \<mapsto> PInt 500]
             = Inl (BackendError m k))
   \<and> process_post_response [''7'' \<mapsto> 7]
       [''error'' \<mapsto> PStr '''', ''errorCode'' \<mapsto> PStr ''zz''] = Inr ()"
  using process_post_response_raises_iff
          [of "[''7'' \<mapsto> 7]"
              "[''code'' \<mapsto> PInt 200, ''error'' \<mapsto> PStr ''quota exceeded'',
                ''errorCode'' \<mapsto> PStr ''7'']"]
        process_post_response_raises_iff [of "[''7'' \<mapsto> 7]" "[''code'' \<mapsto> PInt 500]"]
        process_post_response_raises_iff
          [of "[''7'' \<mapsto> 7]" "[''error'' \<mapsto> PStr '''', ''errorCode'' \<mapsto> PStr ''zz'']"]
  by (simp add: code_in_range_def)

text \<open>
  C4 (as stated, refuted): the claim says every BackendError raised from a body with a
  numeric \<open>errorCode\<close> carries it, in both branches. The body below has
  \<open>errorCode\<close> 7 and an out-of-range \<open>code\<close>; the BackendError raised has no error code.
\<close>

theorem out_of_range_code_drops_error_code:
  "process_post_response Map.empty
     [''code'' \<mapsto> PInt 500, ''message'' \<mapsto> PStr ''Internal error'',
      ''error'' \<mapsto> PStr ''boom'', ''errorCode'' \<mapsto> PInt 7]
   = Inl (BackendError (PStr ''Internal error'') None)"
  by (simp add: process_post_response_def code_in_range_def)

text \<open>
  C4 (amended): whenever process_post_response raises BackendError on a body whose
  \<open>errorCode\<close> is an integer, the error's \<open>error_code\<close> is that integer when the
  error comes from the non-empty-\<open>error\<close> branch (the \<open>code\<close> is absent or in range),
  and \<open>None\<close> when it comes from the out-of-range-\<open>code\<close> branch.
\<close>

theorem error_code_carried_in_error_branch:
  assumes "process_post_response int_of_str response = Inl (BackendError m k)"
      and "response ''errorCode'' = Some (PInt n)"
  shows "k = (if code_in_range response = Inr True then Some n else None)"
  using assms
  by (auto simp: process_post_response_def Let_def
      split: sum.splits if_splits option.splits dest: code_in_range_error)

text \<open>
  Witness for C4: a body without \<open>code\<close>, with an error text and \<open>errorCode\<close> 7.
\<close>

theorem error_code_witness:
  "[''error'' \<mapsto> PStr ''quota exceeded'', ''errorCode'' \<mapsto> PInt 7] ''errorCode'' = Some (PInt 7)
   \<and> code_in_range [''error'' \<mapsto> PStr ''quota exceeded'', ''errorCode'' \<mapsto> PInt 7] = Inr True
   \<and> process_post_response Map.empty
         [''error'' \<mapsto> PStr ''quota exceeded'', ''errorCode'' \<mapsto> PInt 7]
       = Inl (BackendError (PStr ''quota exceeded'') (Some 7))"
proof -
  have a: "process_post_response Map.empty
             [''error'' \<mapsto> PStr ''quota exceeded'', ''errorCode'' \<mapsto> PInt 7]
     = Inl (BackendError (PStr ''quota exceeded'') (Some 7))"
    by (simp add: process_post_response_def code_in_range_def)
  have b: "[''error'' \<mapsto> PStr ''quota exceeded'', ''errorCode'' \<mapsto> PInt 7] ''errorCode''
             = Some (PInt 7)"
    by simp
  from error_code_carried_in_error_branch[OF a b] a b show ?thesis
    by (simp add: code_in_range_def)
qed

subsection \<open>The registry's resolve\<close>

lemma resolve_from_commits:
  assumes "\<forall>p \<in> set pre. \<not> is_supported p h" "is_supported r h"
  shows "resolve_from is_supported resolve i (pre @ r # post) h =
           (map IsSupported [i ..< i + length pre]
              @ [IsSupported (i + length pre), Resolve (i + length pre)],
            (case resolve r h of Inl e \<Rightarrow> Inl (Raised e) | Inr p \<Rightarrow> Inr p))"
  using assms
proof (induction pre arbitrary: i)
  case Nil
  then show ?case by simp
next
  case (Cons a pre)
  have step: "resolve_from is_supported resolve (Suc i) (pre @ r # post) h =
           (map IsSupported [Suc i ..< Suc i + length pre]
              @ [IsSupported (Suc i + length pre), Resolve (Suc i + length pre)],
            (case resolve r h of Inl e \<Rightarrow> Inl (Raised e) | Inr p \<Rightarrow> Inr p))"
    using Cons.IH[of "Suc i"] Cons.prems by simp
  have skip: "\<not> is_supported a h" using Cons.prems by simp
  have idx: "[i ..< i + length (a # pre)] = i # [Suc i ..< Suc i + length pre]"
  proof -
    have lt: "i < i + length (a # pre)" by simp
    have eq: "i + length (a # pre) = Suc i + length pre" by simp
    show ?thesis using upt_conv_Cons[OF lt] unfolding eq .
  qed
  have "resolve_from is_supported resolve i ((a # pre) @ r # post) h =
          (IsSupported i # fst (resolve_from is_supported resolve (Suc i) (pre @ r # post) h),
           snd (resolve_from is_supported resolve (Suc i) (pre @ r # post) h))"
    using skip by (simp add: case_prod_beta)
  then show ?case unfolding step idx by simp
qed

text \<open>
  C6: in a chain \<open>pre @ r # post\<close> where no resolver of \<open>pre\<close> is supported for the
  handle, \<open>r\<close> is supported and its resolve raises \<open>e\<close> (NotFoundError, BackendError
  or any other error), the registry's resolve raises \<open>e\<close>, and the calls it made are
  \<open>is_supported\<close> on the positions up to that of \<open>r\<close> and \<open>resolve\<close> on \<open>r\<close> alone: no
  resolver of \<open>post\<close> is probed or invoked.
\<close>

theorem registry_resolve_propagates_first_supported_error:
  assumes "\<forall>p \<in> set pre. \<not> is_supported p h"
      and "is_supported r h"
      and "resolve r h = Inl e"
  shows "registry_resolve is_supported resolve (pre @ r # post) h =
           (map IsSupported [0 ..< length pre] @ [IsSupported (length pre), Resolve (length pre)],
            Inl (Raised e))"
  using resolve_from_commits[of pre is_supported h r resolve 0 post] assms
  by (simp add: registry_resolve_def)

text \<open>
  Witness for C6: the dataset chain with a Colab cache resolver that is unsupported,
  a Kaggle cache resolver that is supported and raises NotFoundError, and the HTTP
  resolver after them, which is never called.
\<close>

theorem registry_resolve_witness:
  "registry_resolve (\<lambda>r h. r \<noteq> DatasetColabCacheResolver)
     (\<lambda>r h. if r = DatasetKaggleCacheResolver then Inl NotFoundError
             else Inr ''/root/.cache/kagglehub/datasets/alice/iris'')
     [DatasetColabCacheResolver, DatasetKaggleCacheResolver, DatasetHttpResolver] ''alice/iris''
   = ([IsSupported 0, IsSupported 1, Resolve 1], Inl (Raised NotFoundError))"
proof -
  let ?sup = "\<lambda>(r::resolver) (h::string). r \<noteq> DatasetColabCacheResolver"
  let ?res = "\<lambda>(r::resolver) (h::string). if r = DatasetKaggleCacheResolver then Inl NotFoundError
             else (Inr ''/root/.cache/kagglehub/datasets/alice/iris'' :: exn + string)"
  have a: "\<forall>p \<in> set [DatasetColabCacheResolver]. \<not> ?sup p ''alice/iris''" by simp
  have b: "?sup DatasetKaggleCacheResolver ''alice/iris''" by simp
  have c: "?res DatasetKaggleCacheResolver ''alice/iris'' = Inl NotFoundError" by simp
  from registry_resolve_propagates_first_supported_error
         [of "[DatasetColabCacheResolver]" ?sup "''alice/iris''" DatasetKaggleCacheResolver
             ?res NotFoundError "[DatasetHttpResolver]", OF a b c]
  show ?thesis by simp
qed

subsection \<open>get_asset_path and the context variable\<close>

text \<open>
  C7 (as stated, refuted): the claim says two calls of get_asset_path with the same
  argument return the same path whatever the scoped pipeline directory in effect.
  The same argument gives two different paths under two values of
  \<open>scoped_pipeline_dir_ctx\<close>, the file system and \<open>os.makedirs\<close> being the same.
\<close>

theorem get_asset_path_reads_ambient_state:
  "fst (get_asset_path (\<lambda>d fs. (None, fs)) ''model.pkl''
          \<lparr>scoped_pipeline_dir_ctx = CtxNone, filesystem = ()\<rparr>)
     = Inr ''/kaggle/working/assets/model.pkl''
   \<and> fst (get_asset_path (\<lambda>d fs. (None, fs)) ''model.pkl''
          \<lparr>scoped_pipeline_dir_ctx = CtxStr ''/kaggle/tmp/code/u_k'', filesystem = ()\<rparr>)
     = Inr ''/kaggle/tmp/code/u_k/assets/model.pkl''"
  by (simp add: get_asset_path_def current_pipeline_dir_def os_path_join_def)

text \<open>
  C7 (amended): the path get_asset_path returns depends only on its argument and on
  the value of \<open>scoped_pipeline_dir_ctx\<close> at call time: two calls with the same
  argument under the same value of the context variable, both returning, return the
  same path, whatever the file system and the behaviour of \<open>os.makedirs\<close>.
\<close>

theorem get_asset_path_depends_on_argument_and_context:
  assumes "scoped_pipeline_dir_ctx s = scoped_pipeline_dir_ctx t"
      and "fst (get_asset_path makedirs path s) = Inr p"
      and "fst (get_asset_path makedirs' path t) = Inr q"
  shows "p = q"
  using assms
  by (auto simp: get_asset_path_def Let_def split: prod.splits option.splits)

text \<open>
  Witness for C7: two states with the same context value and different file systems,
  under two different \<open>os.makedirs\<close>.
\<close>

theorem get_asset_path_context_witness:
  "scoped_pipeline_dir_ctx \<lparr>scoped_pipeline_dir_ctx = CtxStr ''/kaggle/tmp/code/u_k'', filesystem = False\<rparr>
     = scoped_pipeline_dir_ctx \<lparr>scoped_pipeline_dir_ctx = CtxStr ''/kaggle/tmp/code/u_k'', filesystem = True\<rparr>
   \<and> fst (get_asset_path (\<lambda>d fs. (None, True)) ''model.pkl''
          \<lparr>scoped_pipeline_dir_ctx = CtxStr ''/kaggle/tmp/code/u_k'', filesystem = False\<rparr>)
     = Inr ''/kaggle/tmp/code/u_k/assets/model.pkl''
   \<and> fst (get_asset_path (\<lambda>d fs. (None, fs)) ''model.pkl''
          \<lparr>scoped_pipeline_dir_ctx = CtxStr ''/kaggle/tmp/code/u_k'', filesystem = True\<rparr>)
     = Inr ''/kaggle/tmp/code/u_k/assets/model.pkl''"
proof -
  let ?s = "\<lparr>scoped_pipeline_dir_ctx = CtxStr ''/kaggle/tmp/code/u_k'', filesystem = False\<rparr>"
  let ?t = "\<lparr>scoped_pipeline_dir_ctx = CtxStr ''/kaggle/tmp/code/u_k'', filesystem = True\<rparr>"
  have a: "scoped_pipeline_dir_ctx ?s = scoped_pipeline_dir_ctx ?t" by simp
  have b: "fst (get_asset_path (\<lambda>d fs. (None, True)) ''model.pkl'' ?s)
             = Inr ''/kaggle/tmp/code/u_k/assets/model.pkl''"
    by (simp add: get_asset_path_def current_pipeline_dir_def os_path_join_def)
  obtain q where c: "fst (get_asset_path (\<lambda>d fs. (None, fs)) ''model.pkl'' ?t) = Inr q"
    by (simp add: get_asset_path_def)
  from get_asset_path_depends_on_argument_and_context[OF a b c] a b c
  show ?thesis by simp
qed

lemma join_segments_relative:
  assumes "take 1 p \<noteq> ''/''" "d \<noteq> []" "last d \<noteq> CHR ''/''"
  shows "join_segments d [''assets'', p] = d @ ''/assets/'' @ p"
  using assms by (simp add: join_segments_def os_path_join_def)

text \<open>
  C10: whenever \<open>os.makedirs\<close> does not raise, get_asset_path(p) returns the join of
  \<open>d\<close>, \<open>assets\<close> and \<open>p\<close>, where \<open>d\<close> is the value of the context variable when it
  is a non-empty string or a path, and \<open>/kaggle/working\<close> when it is \<open>None\<close> or the
  empty string.
\<close>

theorem get_asset_path_joins_segments:
  assumes "fst (makedirs (os_path_join (current_pipeline_dir (scoped_pipeline_dir_ctx s)) ''assets'')
                  (filesystem s)) = None"
  shows "fst (get_asset_path makedirs p s) =
           Inr (join_segments
                  (case scoped_pipeline_dir_ctx s of
                     CtxNone \<Rightarrow> ''/kaggle/working''
                   | CtxStr d \<Rightarrow> if d = [] then ''/kaggle/working'' else d
                   | CtxPath q \<Rightarrow> str_path q)
                  [''assets'', p])"
  using assms
  by (auto simp: get_asset_path_def Let_def join_segments_def current_pipeline_dir_def
      split: prod.splits option.splits)

text \<open>
  Witness for C10: a relative path under the default directory and under a scoped
  \<open>Path\<close>, with an \<open>os.makedirs\<close> that records the directory and does not raise.
\<close>

theorem get_asset_path_witness:
  "fst ((\<lambda>d fs. (None, insert d fs)) (os_path_join (current_pipeline_dir CtxNone) ''assets'') {}) = None
   \<and> fst (get_asset_path (\<lambda>d fs. (None, insert d fs)) ''models/model.pkl''
          \<lparr>scoped_pipeline_dir_ctx = CtxNone, filesystem = {}\<rparr>)
       = Inr ''/kaggle/working/assets/models/model.pkl''
   \<and> fst (get_asset_path (\<lambda>d fs. (None, insert d fs)) ''models/model.pkl''
          \<lparr>scoped_pipeline_dir_ctx = CtxPath (Path ''/kaggle/tmp/code/u_k''), filesystem = {}\<rparr>)
       = Inr ''/kaggle/tmp/code/u_k/assets/models/model.pkl''"
  using get_asset_path_joins_segments
          [of "\<lambda>d fs. (None, insert d fs)"
              "\<lparr>scoped_pipeline_dir_ctx = CtxNone, filesystem = {}\<rparr>" "''models/model.pkl''"]
        get_asset_path_joins_segments
          [of "\<lambda>d fs. (None, insert d fs)"
              "\<lparr>scoped_pipeline_dir_ctx = CtxPath (Path ''/kaggle/tmp/code/u_k''), filesystem = {}\<rparr>"
              "''models/model.pkl''"]
  by (simp add: join_segments_def os_path_join_def Path_def str_path_def)

subsection \<open>pipeline_scoped\<close>

lemma pipeline_dir_example:
  "pipeline_dir_of (Some (FileStr ''/kaggle/tmp/code/u_k/module/__init__.py''))
     = Inr (CtxPath \<lparr>root = ''/'', tail = [''kaggle'', ''tmp'', ''code'', ''u_k'']\<rparr>)"
  by (simp add: pipeline_dir_of_def os_path_dirname_def Path_def parent_def)

text \<open>
  C8: for every function and arguments, the wrapper of pipeline_scoped leaves
  \<open>scoped_pipeline_dir_ctx\<close> at its value from before the call, whether the function
  returns or raises (and when the directory cannot be computed and the function is
  never called); and the wrapper's outcome is the function's own, its return value
  when it returns and its exception when it raises.
\<close>

theorem pipeline_scoped_restores_context:
  "scoped_pipeline_dir_ctx (snd (pipeline_scoped func args s)) = scoped_pipeline_dir_ctx s
   \<and> (\<forall>d r s'. pipeline_dir_of (getmodule func) = Inr d \<longrightarrow>
          body func args (s\<lparr>scoped_pipeline_dir_ctx := d\<rparr>) = (r, s') \<longrightarrow>
          fst (pipeline_scoped func args s) = r
          \<and> filesystem (snd (pipeline_scoped func args s)) = filesystem s')"
  by (auto simp: pipeline_scoped_def Let_def split: sum.splits prod.splits)

text \<open>
  Witness for C8: a function of an imported module that returns its argument plus one
  and a function of an interactive session that raises ValueError, each after
  overwriting the context variable itself.
\<close>

theorem pipeline_scoped_witness:
  "(let returning = \<lparr>getmodule = Some (FileStr ''/kaggle/tmp/code/u_k/module/__init__.py''),
                     body = (\<lambda>(n::int) (s::unit state).
                               (Inr (n + 1) :: exn + int, s\<lparr>scoped_pipeline_dir_ctx := CtxNone\<rparr>))\<rparr>;
        raising = \<lparr>getmodule = None,
                   body = (\<lambda>(n::int) (s::unit state).
                             (Inl ValueError :: exn + int, s\<lparr>scoped_pipeline_dir_ctx := CtxStr ''/tmp''\<rparr>))\<rparr>;
        s = \<lparr>scoped_pipeline_dir_ctx = CtxStr ''/outer'', filesystem = ()\<rparr>
    in scoped_pipeline_dir_ctx (snd (pipeline_scoped returning 41 s)) = CtxStr ''/outer''
       \<and> fst (pipeline_scoped returning 41 s) = Inr 42
       \<and> scoped_pipeline_dir_ctx (snd (pipeline_scoped raising 41 s)) = CtxStr ''/outer''
       \<and> fst (pipeline_scoped raising 41 s) = Inl ValueError)"
proof -
  let ?returning = "\<lparr>getmodule = Some (FileStr ''/kaggle/tmp/code/u_k/module/__init__.py''),
                     body = (\<lambda>(n::int) (s::unit state).
                               (Inr (n + 1) :: exn + int, s\<lparr>scoped_pipeline_dir_ctx := CtxNone\<rparr>))\<rparr>"
  let ?raising = "\<lparr>getmodule = None,
                   body = (\<lambda>(n::int) (s::unit state).
                             (Inl ValueError :: exn + int, s\<lparr>scoped_pipeline_dir_ctx := CtxStr ''/tmp''\<rparr>))\<rparr>"
  let ?s = "\<lparr>scoped_pipeline_dir_ctx = CtxStr ''/outer'', filesystem = ()\<rparr>"
  from pipeline_scoped_restores_context[of ?returning 41 ?s]
       pipeline_scoped_restores_context[of ?raising 41 ?s]
  show ?thesis by (simp add: pipeline_dir_example pipeline_dir_of_def Let_def)
qed

subsection \<open>The not-found clause on every response\<close>

text \<open>
  X1: on every response on which \<open>raise_for_status\<close> raises HTTPNotFound,
  kaggle_api_raise_for_status fails while building its message: with AttributeError
  when the response has no \<open>status_code\<close>, with UnboundLocalError otherwise. It never
  raises KaggleApiHTTP1Error there.
\<close>

theorem not_found_clause_never_raises_http1_error:
  assumes "raise_for_status r = Some e"
      and "exc_class e = HTTPNotFound"
  shows "kaggle_api_raise_for_status r h =
           Inl (if status_code r = None then AttributeError else UnboundLocalError)"
  using assms by (simp add: kaggle_api_raise_for_status_def split: option.splits)

text \<open>
  Witness for X1: a response without \<open>status_code\<close>, as an \<open>aiohttp.ClientResponse\<close>
  is, and with a resource handle.
\<close>

theorem not_found_clause_witness:
  "kaggle_api_raise_for_status
     \<lparr>status = 404, status_code = None,
      url = ''https://www.kaggle.com/api/v1/datasets/owner/missing'',
      raise_for_status = Some \<lparr>exc_class = HTTPNotFound, exc_str = ''Not Found''\<rparr>\<rparr>
     (Some \<lparr>to_url = ''https://www.kaggle.com/datasets/owner/missing''\<rparr>)
   = Inl AttributeError"
  using not_found_clause_never_raises_http1_error
    [of "\<lparr>status = 404, status_code = None,
          url = ''https://www.kaggle.com/api/v1/datasets/owner/missing'',
          raise_for_status = Some \<lparr>exc_class = HTTPNotFound, exc_str = ''Not Found''\<rparr>\<rparr>"
        "\<lparr>exc_class = HTTPNotFound, exc_str = ''Not Found''\<rparr>"
        "Some \<lparr>to_url = ''https://www.kaggle.com/datasets/owner/missing''\<rparr>"]
  by simp

subsection \<open>The module body of __init__.py\<close>

text \<open>
  X2: the module body of __init__.py ends with ImportError at line 5, which imports
  \<open>whoami\<close> from auth.py, a module that binds \<open>login\<close> and no \<open>whoami\<close>; the
  registrations of lines 13 to 22 are not reached and the chains stay empty.
\<close>

theorem startup_raises_import_error:
  "kagglehub_init = (Some ImportError, empty_registry)
   \<and> ''login'' \<in> set auth_module \<and> ''whoami'' \<notin> set auth_module"
  by (simp add: kagglehub_init_def import_from_def auth_module_def)

end
